theory Spec2Isabelle
  imports Main "HOL-Library.Multiset"
begin

section \<open>Python values of the search-and-extraction pipeline\<close>

text \<open>
  A shallow embedding of \<^verbatim>\<open>src/main.py\<close>. A Python \<^verbatim>\<open>str\<close> is a \<^typ>\<open>string\<close>
  whose characters are the code points 0 to 255 (Latin-1); the character classes below
  (\<^verbatim>\<open>str.isspace\<close>, \<^verbatim>\<open>str.isdigit\<close>, \<^verbatim>\<open>str.lower\<close>) are Python's on that range.
  Every exception the source can raise is a value \<open>Inl (Exn class message)\<close>.
\<close>

datatype exn_class =
    URLError | HTTPError | TimeoutError | JSONDecodeError
  | ValueError | TypeError | AttributeError | OverflowError | KeyError
  | RuntimeError | OtherException

datatype exn = Exn exn_class string

fun exn_str :: "exn \<Rightarrow> string" where
  "exn_str (Exn c msg) = msg"

text \<open>
  A binary64 float: \<open>Finite m e\<close> is the number \<open>m * 2 ^ e\<close> (every finite float has
  this shape), beside the two infinities and NaN.
\<close>

datatype pyfloat = Finite int int | PosInf | NegInf | NaN

text \<open>What \<^verbatim>\<open>json.loads\<close> can return, and what the HTML parser builds its rows from.\<close>

datatype pyval =
    VNone
  | VBool bool
  | VInt int
  | VFloat pyfloat
  | VStr string
  | VList "pyval list"
  | VDict "(string \<times> pyval) list"

subsection \<open>Characters and strings\<close>

definition is_ascii_digit :: "char \<Rightarrow> bool" where
  "is_ascii_digit c = (c \<in> set ''0123456789'')"

definition is_ascii_alpha :: "char \<Rightarrow> bool" where
  "is_ascii_alpha c =
     (c \<in> set ''abcdefghijklmnopqrstuvwxyzABCDEFGHIJKLMNOPQRSTUVWXYZ'')"

text \<open>
  \<^verbatim>\<open>str.isspace\<close>, which is also the regular expression class \<^verbatim>\<open>\s\<close> on a
  \<^verbatim>\<open>str\<close> pattern and what \<^verbatim>\<open>str.strip()\<close> removes: code points 9 to 13, 28 to 32,
  133 (NEL) and 160 (no-break space).
\<close>

definition py_isspace :: "char \<Rightarrow> bool" where
  "py_isspace c =
     (c \<in> set [CHR 0x09, CHR 0x0A, CHR 0x0B, CHR 0x0C, CHR 0x0D,
               CHR 0x1C, CHR 0x1D, CHR 0x1E, CHR 0x1F, CHR 0x20,
               CHR 0x85, CHR 0xA0])"

text \<open>
  One character of \<^verbatim>\<open>str.isdigit\<close>: the ASCII digits and the superscripts two,
  three and one (code points 178, 179 and 185), which are digits but not decimal.
\<close>

definition py_isdigit_char :: "char \<Rightarrow> bool" where
  "py_isdigit_char c = (is_ascii_digit c \<or> c \<in> set [CHR 0xB2, CHR 0xB3, CHR 0xB9])"

definition py_isdigit :: "string \<Rightarrow> bool" where
  "py_isdigit s = (s \<noteq> [] \<and> list_all py_isdigit_char s)"

text \<open>
  \<^verbatim>\<open>str.lower\<close> on one code point: A to Z, and the Latin-1 capitals 192 to 222
  except the multiplication sign 215, move up by 32.
\<close>

definition lower_table :: "(char \<times> char) list" where
  "lower_table =
     zip ''ABCDEFGHIJKLMNOPQRSTUVWXYZ'' ''abcdefghijklmnopqrstuvwxyz'' @
     [(CHR 0xC0, CHR 0xE0), (CHR 0xC1, CHR 0xE1), (CHR 0xC2, CHR 0xE2),
      (CHR 0xC3, CHR 0xE3), (CHR 0xC4, CHR 0xE4), (CHR 0xC5, CHR 0xE5),
      (CHR 0xC6, CHR 0xE6), (CHR 0xC7, CHR 0xE7), (CHR 0xC8, CHR 0xE8),
      (CHR 0xC9, CHR 0xE9), (CHR 0xCA, CHR 0xEA), (CHR 0xCB, CHR 0xEB),
      (CHR 0xCC, CHR 0xEC), (CHR 0xCD, CHR 0xED), (CHR 0xCE, CHR 0xEE),
      (CHR 0xCF, CHR 0xEF), (CHR 0xD0, CHR 0xF0), (CHR 0xD1, CHR 0xF1),
      (CHR 0xD2, CHR 0xF2), (CHR 0xD3, CHR 0xF3), (CHR 0xD4, CHR 0xF4),
      (CHR 0xD5, CHR 0xF5), (CHR 0xD6, CHR 0xF6), (CHR 0xD8, CHR 0xF8),
      (CHR 0xD9, CHR 0xF9), (CHR 0xDA, CHR 0xFA), (CHR 0xDB, CHR 0xFB),
      (CHR 0xDC, CHR 0xFC), (CHR 0xDD, CHR 0xFD), (CHR 0xDE, CHR 0xFE)]"

definition py_lower_char :: "char \<Rightarrow> char" where
  "py_lower_char c = (case map_of lower_table c of Some l \<Rightarrow> l | None \<Rightarrow> c)"

definition py_lower :: "string \<Rightarrow> string" where
  "py_lower s = map py_lower_char s"

definition py_strip :: "string \<Rightarrow> string" where
  "py_strip s = rev (dropWhile py_isspace (rev (dropWhile py_isspace s)))"

definition startswith :: "string \<Rightarrow> string \<Rightarrow> bool" where
  "startswith s p = (take (length p) s = p)"

text \<open>\<^verbatim>\<open>sub in s\<close> on strings.\<close>

fun py_contains :: "string \<Rightarrow> string \<Rightarrow> bool" where
  "py_contains sub [] = (sub = [])"
| "py_contains sub (c # cs) = (startswith (c # cs) sub \<or> py_contains sub cs)"

fun digit_val :: "char \<Rightarrow> nat" where
  "digit_val c = of_char c - 48"

text \<open>The number a run of ASCII digits writes, most significant digit first.\<close>

definition digits_val :: "string \<Rightarrow> nat" where
  "digits_val ds = foldl (\<lambda>acc c. 10 * acc + digit_val c) 0 ds"

subsection \<open>Floats: \<^verbatim>\<open>float(str)\<close>, \<^verbatim>\<open>float * int\<close>, \<^verbatim>\<open>int(float)\<close>\<close>

fun bit_length :: "nat \<Rightarrow> nat" where
  "bit_length n = (if n = 0 then 0 else Suc (bit_length (n div 2)))"

text \<open>\<open>ge_pow2 num den k\<close>: the fraction \<open>num / den\<close> is at least \<open>2 ^ k\<close>.\<close>

definition ge_pow2 :: "nat \<Rightarrow> nat \<Rightarrow> int \<Rightarrow> bool" where
  "ge_pow2 num den k =
     (if 0 \<le> k then den * 2 ^ nat k \<le> num else den \<le> num * 2 ^ nat (- k))"

definition floor_log2 :: "nat \<Rightarrow> nat \<Rightarrow> int" where
  "floor_log2 num den =
     (let t = int (bit_length num) - int (bit_length den)
      in if ge_pow2 num den t then t else t - 1)"

text \<open>The integer nearest to \<open>a / b\<close>, a tie going to the even one.\<close>

definition round_half_even :: "nat \<Rightarrow> nat \<Rightarrow> nat" where
  "round_half_even a b =
     (let q = a div b; r = a mod b
      in if 2 * r < b then q
         else if b < 2 * r then q + 1
         else if even q then q else q + 1)"

text \<open>
  The binary64 float nearest to the fraction \<open>num / den\<close> (IEEE 754 round to nearest,
  ties to even): 53 bits of mantissa, the least exponent \<open>-1022\<close> (below it the
  spacing stays \<open>2 ^ -1074\<close>), and infinity from \<open>2 ^ 1024\<close> on. This is what
  \<^verbatim>\<open>float(s)\<close> returns for a decimal numeral and what a product of floats rounds to.
\<close>

definition fround :: "nat \<Rightarrow> nat \<Rightarrow> pyfloat" where
  "fround num den =
     (if num = 0 then Finite 0 0
      else
        let e = floor_log2 num den;
            k = max e (- 1022) - 52;
            m = (if 0 \<le> k then round_half_even num (den * 2 ^ nat k)
                 else round_half_even (num * 2 ^ nat (- k)) den)
        in if 0 \<le> k \<and> 2 ^ 1024 \<le> m * 2 ^ nat k then PosInf else Finite (int m) k)"

text \<open>
  \<^verbatim>\<open>value * scale\<close> for a float that is not negative and an \<^verbatim>\<open>int\<close> scale between
  1 and \<open>2 ^ 53\<close> (converted to a float without rounding): the product, rounded.
\<close>

fun float_mul_int :: "pyfloat \<Rightarrow> nat \<Rightarrow> pyfloat" where
  "float_mul_int (Finite m e) s =
     (if 0 \<le> e then fround (nat m * s * 2 ^ nat e) 1
      else fround (nat m * s) (2 ^ nat (- e)))"
| "float_mul_int f s = f"

text \<open>
  \<^verbatim>\<open>int(x)\<close> for a float: truncation toward zero; an infinity raises
  \<^verbatim>\<open>OverflowError\<close> and NaN raises \<^verbatim>\<open>ValueError\<close>.
\<close>

fun int_of_float :: "pyfloat \<Rightarrow> exn + int" where
  "int_of_float (Finite m e) =
     Inr (if 0 \<le> e then m * 2 ^ nat e
          else if 0 \<le> m then m div 2 ^ nat (- e)
          else - ((- m) div 2 ^ nat (- e)))"
| "int_of_float PosInf = Inl (Exn OverflowError ''cannot convert float infinity to integer'')"
| "int_of_float NegInf = Inl (Exn OverflowError ''cannot convert float infinity to integer'')"
| "int_of_float NaN = Inl (Exn ValueError ''cannot convert float NaN to integer'')"

section \<open>Size normalizer: \<^verbatim>\<open>parse_size_bytes\<close>\<close>

text \<open>
  One match of \<^verbatim>\<open>Size ([0-9]+(?:\.[0-9]+)?)\s*([A-Za-z]+)\<close>: the integer digits, the
  fraction digits (empty when the optional group did not take part) and the letters.
\<close>

record size_match =
  int_digits :: string
  frac_digits :: string
  unit_letters :: string

text \<open>
  The pattern tried at the start of \<open>s\<close>. Each repetition is greedy, and giving back
  what one took never allows a match: after the digits comes a character that is not a
  digit, after the white space one that is not white space.
\<close>

definition match_here :: "string \<Rightarrow> size_match option" where
  "match_here s =
     (if \<not> startswith s ''Size '' then None
      else
        let r0 = drop 5 s;
            ds = takeWhile is_ascii_digit r0;
            r1 = dropWhile is_ascii_digit r0
        in if ds = [] then None
           else
             let fs = (case r1 of
                         c # r \<Rightarrow> if c = CHR ''.'' then takeWhile is_ascii_digit r else []
                       | [] \<Rightarrow> []);
                 r2 = (if fs = [] then r1 else dropWhile is_ascii_digit (tl r1));
                 r3 = dropWhile py_isspace r2;
                 us = takeWhile is_ascii_alpha r3
             in if us = [] then None
                else Some \<lparr>int_digits = ds, frac_digits = fs, unit_letters = us\<rparr>)"

text \<open>\<^verbatim>\<open>re.search\<close>: the match at the leftmost position that has one.\<close>

fun re_search :: "string \<Rightarrow> size_match option" where
  "re_search [] = match_here []"
| "re_search (c # cs) =
     (case match_here (c # cs) of Some m \<Rightarrow> Some m | None \<Rightarrow> re_search cs)"

text \<open>The \<^verbatim>\<open>scale\<close> dictionary with its \<^verbatim>\<open>.get(unit, 1)\<close> default.\<close>

definition scale :: "string \<Rightarrow> nat" where
  "scale unit =
     (case map_of
        [(''b'', 1), (''kib'', 1024), (''kb'', 1024),
         (''mib'', 1024 ^ 2), (''mb'', 1024 ^ 2),
         (''gib'', 1024 ^ 3), (''gb'', 1024 ^ 3),
         (''tib'', 1024 ^ 4), (''tb'', 1024 ^ 4)] unit of
        Some k \<Rightarrow> k
      | None \<Rightarrow> 1)"

definition parse_size_bytes :: "string \<Rightarrow> exn + int" where
  "parse_size_bytes text =
     (case re_search text of
        None \<Rightarrow> Inr 0
      | Some m \<Rightarrow>
          let v = fround (digits_val (int_digits m @ frac_digits m))
                         (10 ^ length (frac_digits m));
              unit = py_lower (unit_letters m)
          in int_of_float (float_mul_int v (scale unit)))"

section \<open>Conversions of Python values\<close>

text \<open>
  The body of an integer literal for \<^verbatim>\<open>int(str)\<close>: decimal digits, with single
  underscores between digits only.
\<close>

fun valid_int_body :: "string \<Rightarrow> bool" where
  "valid_int_body [] = False"
| "valid_int_body [c] = is_ascii_digit c"
| "valid_int_body (c # d # r) =
     (is_ascii_digit c \<and>
      (if d = CHR ''_'' then valid_int_body r else valid_int_body (d # r)))"

text \<open>CPython's default limit on the digits of a decimal string it converts.\<close>

definition int_max_str_digits :: nat where
  "int_max_str_digits = 4300"

definition bad_literal :: exn where
  "bad_literal = Exn ValueError ''invalid literal for int() with base 10''"

text \<open>
  \<^verbatim>\<open>int(s)\<close> for a string: white space around the literal is dropped, one sign may
  lead, and anything else raises \<^verbatim>\<open>ValueError\<close>.
\<close>

definition py_int_of_str :: "string \<Rightarrow> exn + int" where
  "py_int_of_str s =
     (case py_strip s of
        [] \<Rightarrow> Inl bad_literal
      | c # r \<Rightarrow>
          let body = (if c = CHR ''-'' \<or> c = CHR ''+'' then r else c # r);
              ds = filter is_ascii_digit body
          in if \<not> valid_int_body body then Inl bad_literal
             else if int_max_str_digits < length ds
             then Inl (Exn ValueError ''Exceeds the limit for integer string conversion'')
             else Inr (if c = CHR ''-'' then - int (digits_val ds) else int (digits_val ds)))"

text \<open>\<^verbatim>\<open>int(x)\<close> for any value of a row.\<close>

fun py_int :: "pyval \<Rightarrow> exn + int" where
  "py_int (VInt i) = Inr i"
| "py_int (VBool b) = Inr (if b then 1 else 0)"
| "py_int (VFloat f) = int_of_float f"
| "py_int (VStr s) = py_int_of_str s"
| "py_int VNone = Inl (Exn TypeError ''int() argument must be a string or a number'')"
| "py_int (VList xs) = Inl (Exn TypeError ''int() argument must be a string or a number'')"
| "py_int (VDict d) = Inl (Exn TypeError ''int() argument must be a string or a number'')"

text \<open>Truth value testing: what \<^verbatim>\<open>if not x\<close> looks at.\<close>

fun py_truthy :: "pyval \<Rightarrow> bool" where
  "py_truthy VNone = False"
| "py_truthy (VBool b) = b"
| "py_truthy (VInt i) = (i \<noteq> 0)"
| "py_truthy (VFloat (Finite m e)) = (m \<noteq> 0)"
| "py_truthy (VFloat f) = True"
| "py_truthy (VStr s) = (s \<noteq> [])"
| "py_truthy (VList xs) = (xs \<noteq> [])"
| "py_truthy (VDict d) = (d \<noteq> [])"

text \<open>\<^verbatim>\<open>d.get(key, default)\<close> on a dictionary kept as an association list.\<close>

definition dict_get :: "(string \<times> pyval) list \<Rightarrow> string \<Rightarrow> pyval \<Rightarrow> pyval" where
  "dict_get d k dflt = (case map_of d k of Some v \<Rightarrow> v | None \<Rightarrow> dflt)"

section \<open>Magnet hash extractor: \<^verbatim>\<open>parse_btih_from_magnet\<close>\<close>

text \<open>\<^verbatim>\<open>s.split(sep)\<close> for a separator of one character.\<close>

fun split_on :: "char \<Rightarrow> string \<Rightarrow> string list" where
  "split_on sep [] = [[]]"
| "split_on sep (c # cs) =
     (if c = sep then [] # split_on sep cs
      else (case split_on sep cs of
              w # ws \<Rightarrow> (c # w) # ws
            | [] \<Rightarrow> [[c]]))"

text \<open>
  \<^verbatim>\<open>s.split(":", n)[-1]\<close>: what is left of \<open>s\<close> after its first \<open>n\<close> colons, or after
  its last colon when it has fewer.
\<close>

fun after_colons :: "nat \<Rightarrow> string \<Rightarrow> string" where
  "after_colons 0 s = s"
| "after_colons (Suc n) s =
     (case dropWhile (\<lambda>c. c \<noteq> CHR '':'') s of
        [] \<Rightarrow> s
      | c # r \<Rightarrow> after_colons n r)"

text \<open>
  \<^verbatim>\<open>urllib.parse.urlparse(magnet).query\<close> for a string that starts with
  \<^verbatim>\<open>magnet:?\<close>: tabs, carriage returns and line feeds are removed from the whole
  string, the scheme \<^verbatim>\<open>magnet\<close> and its colon are split off, there is no network
  location, the fragment starts at the first \<^verbatim>\<open>#\<close>, and the query is what follows
  the first question mark before it.
\<close>

definition urlparse_query :: "string \<Rightarrow> string" where
  "urlparse_query url =
     (let u = filter (\<lambda>c. c \<notin> set [CHR 0x09, CHR 0x0D, CHR 0x0A]) url;
          rest = drop 7 u;
          no_fragment = takeWhile (\<lambda>c. c \<noteq> CHR ''#'') rest
      in drop 1 (dropWhile (\<lambda>c. c \<noteq> CHR ''?'') no_fragment))"

text \<open>
  \<^verbatim>\<open>urllib.parse.unquote\<close>: a string without a percent sign is returned as it is.
  Otherwise the escapes are decoded as UTF-8, which can leave the Latin-1 range, so
  that path is the parameter \<open>decode\<close>, and everything below holds for every such
  function.
\<close>

definition unquote :: "(string \<Rightarrow> string) \<Rightarrow> string \<Rightarrow> string" where
  "unquote decode s = (if CHR ''%'' \<notin> set s then s else decode s)"

definition plus_to_space :: "string \<Rightarrow> string" where
  "plus_to_space s = map (\<lambda>c. if c = CHR ''+'' then CHR '' '' else c) s"

text \<open>
  One field of \<^verbatim>\<open>parse_qsl\<close>: an empty field, a field without an equals sign and a
  field with an empty value are left out (\<^verbatim>\<open>keep_blank_values\<close> is off).
\<close>

definition parse_field :: "(string \<Rightarrow> string) \<Rightarrow> string \<Rightarrow> (string \<times> string) list" where
  "parse_field decode name_value =
     (let name = takeWhile (\<lambda>c. c \<noteq> CHR ''='') name_value;
          rest = dropWhile (\<lambda>c. c \<noteq> CHR ''='') name_value
      in case rest of
           [] \<Rightarrow> []
         | eq # v \<Rightarrow>
             if v = [] then []
             else [(unquote decode (plus_to_space name), unquote decode (plus_to_space v))])"

definition parse_qsl :: "(string \<Rightarrow> string) \<Rightarrow> string \<Rightarrow> (string \<times> string) list" where
  "parse_qsl decode qs = concat (map (parse_field decode) (split_on CHR ''&'' qs))"

text \<open>\<^verbatim>\<open>parse_qs(query).get(key) or []\<close>: the values of one name, in their order.\<close>

definition qs_values :: "(string \<Rightarrow> string) \<Rightarrow> string \<Rightarrow> string \<Rightarrow> string list" where
  "qs_values decode qs key = map snd (filter (\<lambda>nv. fst nv = key) (parse_qsl decode qs))"

definition parse_btih_from_magnet :: "(string \<Rightarrow> string) \<Rightarrow> string \<Rightarrow> string option" where
  "parse_btih_from_magnet decode magnet =
     (if \<not> startswith magnet ''magnet:?'' then None
      else
        (case filter (\<lambda>xt. startswith xt ''urn:btih:'')
                (qs_values decode (urlparse_query magnet) ''xt'') of
           [] \<Rightarrow> None
         | xt # xts \<Rightarrow> Some (after_colons 2 xt)))"

section \<open>HTML row parser: \<^verbatim>\<open>TPBHTMLParser\<close>\<close>

text \<open>
  The events the library's \<^verbatim>\<open>HTMLParser.feed\<close> calls the handlers with. An
  attribute written without a value (\<^verbatim>\<open><a href>\<close>) carries \<^verbatim>\<open>None\<close>.
\<close>

type_synonym attrs = "(string \<times> string option) list"

datatype event =
    StartTag string attrs
  | EndTag string
  | Data string

text \<open>
  The parser object. The dictionary \<^verbatim>\<open>self.current\<close> has the three fixed keys
  \<^verbatim>\<open>name\<close>, \<^verbatim>\<open>magnet\<close> and \<^verbatim>\<open>size\<close>, kept here as three fields.
\<close>

record parser =
  rows :: "pyval list"
  in_tr :: bool
  in_det_name :: bool
  in_title_anchor :: bool
  in_det_desc :: bool
  in_align_right :: bool
  align_right_values :: "int list"
  cur_name :: "string option"
  cur_magnet :: "string option"
  cur_size :: int

definition reset_row :: "parser \<Rightarrow> parser" where
  "reset_row p =
     p\<lparr>in_tr := False, in_det_name := False, in_title_anchor := False,
       in_det_desc := False, in_align_right := False, align_right_values := [],
       cur_name := None, cur_magnet := None, cur_size := 0\<rparr>"

text \<open>\<^verbatim>\<open>TPBHTMLParser()\<close>.\<close>

definition new_parser :: parser where
  "new_parser =
     \<lparr>rows = [], in_tr = False, in_det_name = False, in_title_anchor = False,
      in_det_desc = False, in_align_right = False, align_right_values = [],
      cur_name = None, cur_magnet = None, cur_size = 0\<rparr>"

text \<open>\<^verbatim>\<open>dict(attrs).get(key)\<close>: of two attributes with one name the later one counts.\<close>

definition attr_get :: "attrs \<Rightarrow> string \<Rightarrow> string option option" where
  "attr_get ats k = map_of (rev ats) k"

text \<open>
  The anchor branch of \<^verbatim>\<open>handle_starttag\<close>. \<^verbatim>\<open>attrs.get("href", "")\<close> is \<^verbatim>\<open>None\<close>
  for an \<^verbatim>\<open>href\<close> without a value, and \<^verbatim>\<open>None.startswith\<close> raises.
\<close>

definition start_anchor :: "attrs \<Rightarrow> parser \<Rightarrow> exn + parser" where
  "start_anchor ats p =
     (case attr_get ats ''href'' of
        Some None \<Rightarrow>
          Inl (Exn AttributeError ''NoneType object has no attribute startswith'')
      | Some (Some href) \<Rightarrow>
          Inr (if startswith href ''magnet:?xt='' then p\<lparr>cur_magnet := Some href\<rparr>
               else if in_det_name p then p\<lparr>in_title_anchor := True\<rparr>
               else p)
      | None \<Rightarrow>
          Inr (if in_det_name p then p\<lparr>in_title_anchor := True\<rparr> else p))"

definition handle_starttag :: "string \<Rightarrow> attrs \<Rightarrow> parser \<Rightarrow> exn + parser" where
  "handle_starttag tag ats p =
     (if tag = ''tr''
      then Inr (p\<lparr>in_tr := True, align_right_values := [],
                  cur_name := None, cur_magnet := None, cur_size := 0\<rparr>)
      else if \<not> in_tr p then Inr p
      else
        let p1 = (if tag = ''div'' \<and> attr_get ats ''class'' = Some (Some ''detName'')
                  then p\<lparr>in_det_name := True\<rparr> else p);
            p2 = (if tag = ''font'' \<and> attr_get ats ''class'' = Some (Some ''detDesc'')
                  then p1\<lparr>in_det_desc := True\<rparr> else p1)
        in case (if tag = ''a'' then start_anchor ats p2 else Inr p2) of
             Inl e \<Rightarrow> Inl e
           | Inr p3 \<Rightarrow>
               Inr (if tag = ''td'' \<and> attr_get ats ''align'' = Some (Some ''right'')
                    then p3\<lparr>in_align_right := True\<rparr> else p3))"

text \<open>
  The row a closing \<^verbatim>\<open>tr\<close> appends, when the row has a name and a magnet link with
  an info-hash that is not empty.
\<close>

definition emit_row :: "(string \<Rightarrow> string) \<Rightarrow> parser \<Rightarrow> pyval list" where
  "emit_row decode p =
     (case parse_btih_from_magnet decode
             (case cur_magnet p of Some m \<Rightarrow> m | None \<Rightarrow> []) of
        None \<Rightarrow> []
      | Some info_hash \<Rightarrow>
          (case cur_name p of
             None \<Rightarrow> []
           | Some name \<Rightarrow>
               if name = [] \<or> info_hash = [] then []
               else
                 [VDict
                   [(''name'', VStr name),
                    (''info_hash'', VStr info_hash),
                    (''seeders'',
                       VInt (case align_right_values p of [] \<Rightarrow> 0 | s # r \<Rightarrow> s)),
                    (''leechers'',
                       VInt (case align_right_values p of s # l # r \<Rightarrow> l | _ \<Rightarrow> 0)),
                    (''size'', VInt (cur_size p))]]))"

definition handle_endtag :: "(string \<Rightarrow> string) \<Rightarrow> string \<Rightarrow> parser \<Rightarrow> parser" where
  "handle_endtag decode tag p =
     (let p1 = (if tag = ''tr'' \<and> in_tr p
                then reset_row (p\<lparr>rows := rows p @ emit_row decode p\<rparr>) else p);
          p2 = (if tag = ''div'' then p1\<lparr>in_det_name := False\<rparr> else p1);
          p3 = (if tag = ''a'' then p2\<lparr>in_title_anchor := False\<rparr> else p2);
          p4 = (if tag = ''font'' then p3\<lparr>in_det_desc := False\<rparr> else p3)
      in if tag = ''td'' \<and> in_align_right p4 then p4\<lparr>in_align_right := False\<rparr> else p4)"

definition handle_data :: "string \<Rightarrow> parser \<Rightarrow> exn + parser" where
  "handle_data data p =
     (if \<not> in_tr p then Inr p
      else
        let text = py_strip data
        in if text = [] then Inr p
           else
             let p1 = (if in_title_anchor p \<and> in_det_name p
                       then p\<lparr>cur_name := Some text\<rparr> else p)
             in case (if in_det_desc p1
                      then (case parse_size_bytes text of
                              Inl e \<Rightarrow> Inl e
                            | Inr size_bytes \<Rightarrow>
                                Inr (if size_bytes \<noteq> 0 then p1\<lparr>cur_size := size_bytes\<rparr>
                                     else p1))
                      else Inr p1) of
                  Inl e \<Rightarrow> Inl e
                | Inr p2 \<Rightarrow>
                    if in_align_right p2 \<and> py_isdigit text
                    then (case py_int_of_str text of
                            Inl e \<Rightarrow> Inl e
                          | Inr n \<Rightarrow>
                              Inr (p2\<lparr>align_right_values := align_right_values p2 @ [n]\<rparr>))
                    else Inr p2)"

fun handle_event :: "(string \<Rightarrow> string) \<Rightarrow> event \<Rightarrow> parser \<Rightarrow> exn + parser" where
  "handle_event decode (StartTag tag ats) p = handle_starttag tag ats p"
| "handle_event decode (EndTag tag) p = Inr (handle_endtag decode tag p)"
| "handle_event decode (Data d) p = handle_data d p"

text \<open>\<^verbatim>\<open>parser.feed(html)\<close>: the handlers run in document order; an exception ends it.\<close>

fun feed :: "(string \<Rightarrow> string) \<Rightarrow> event list \<Rightarrow> parser \<Rightarrow> exn + parser" where
  "feed decode [] p = Inr p"
| "feed decode (ev # evs) p =
     (case handle_event decode ev p of
        Inl e \<Rightarrow> Inl e
      | Inr p' \<Rightarrow> feed decode evs p')"

section \<open>Percent-encoding: \<^verbatim>\<open>urllib.parse.quote\<close>\<close>

definition always_safe :: string where
  "always_safe =
     ''ABCDEFGHIJKLMNOPQRSTUVWXYZabcdefghijklmnopqrstuvwxyz0123456789_.-~''"

definition hex_digit :: "nat \<Rightarrow> char" where
  "hex_digit n = ''0123456789ABCDEF'' ! n"

text \<open>One byte, written \<^verbatim>\<open>%XX\<close>.\<close>

definition pct_byte :: "nat \<Rightarrow> string" where
  "pct_byte b = [CHR ''%'', hex_digit (b div 16), hex_digit (b mod 16)]"

text \<open>
  One character of \<^verbatim>\<open>quote(s, safe)\<close>: an ASCII character that is always safe or
  listed in \<open>safe\<close> stays; any other is written as the escapes of its UTF-8 bytes,
  one byte below code point 128 and two from there to 255.
\<close>

definition quote_char :: "string \<Rightarrow> char \<Rightarrow> string" where
  "quote_char safe c =
     (let n = (of_char c :: nat)
      in if n < 128
         then (if c \<in> set always_safe \<or> c \<in> set safe then [c] else pct_byte n)
         else pct_byte (192 + n div 64) @ pct_byte (128 + n mod 64))"

definition quote :: "string \<Rightarrow> string \<Rightarrow> string" where
  "quote safe s = concat (map (quote_char safe) s)"

section \<open>Magnet builder: \<^verbatim>\<open>build_magnet\<close>\<close>

definition TRACKERS :: "string list" where
  "TRACKERS =
     [''udp://tracker.opentrackr.org:1337/announce'',
      ''udp://open.demonii.com:1337/announce'',
      ''udp://tracker.coppersurfer.tk:6969/announce'',
      ''udp://tracker.leechers-paradise.org:6969/announce'']"

text \<open>\<^verbatim>\<open>sep.join(parts)\<close>.\<close>

fun py_join :: "string \<Rightarrow> string list \<Rightarrow> string" where
  "py_join sep [] = []"
| "py_join sep [x] = x"
| "py_join sep (x # y # r) = x @ sep @ py_join sep (y # r)"

definition build_magnet :: "string \<Rightarrow> string \<Rightarrow> string" where
  "build_magnet info_hash name =
     (let xt = ''urn:btih:'' @ info_hash;
          dn = quote '' '' name;
          trackers = py_join ''&'' (map (\<lambda>tr. ''tr='' @ quote ''/'' tr) TRACKERS)
      in ''magnet:?xt='' @ xt @ ''&dn='' @ dn @ ''&'' @ trackers)"

section \<open>Endpoint fetchers and search orchestrator\<close>

text \<open>
  A URL template with its two fields, as the text before the query, the text between
  the query and the category code, and the text after it.
\<close>

type_synonym endpoint = "string \<times> string \<times> string"

definition API_ENDPOINTS :: "endpoint list" where
  "API_ENDPOINTS =
     [(''https://apibay.org/q.php?q='', ''&cat='', ''''),
      (''https://pirateproxy.live/apibay/q.php?q='', ''&cat='', ''''),
      (''https://apibay.sbs/q.php?q='', ''&cat='', '''')]"

definition HTML_ENDPOINTS :: "endpoint list" where
  "HTML_ENDPOINTS =
     [(''https://thepiratebay.org/search/'', ''/1/99/'', ''''),
      (''https://thepiratebay0.org/search/'', ''/1/99/'', ''''),
      (''https://tpb.party/search/'', ''/1/99/'', '''')]"

definition CATEGORY_SETS :: "string \<Rightarrow> string list option" where
  "CATEGORY_SETS =
     map_of
       [(''movies_hd'', [''207'', ''201'', ''200'']),
        (''shows_hd'', [''208'', ''205'', ''200'']),
        (''all_video'', [''200'', ''0''])]"

text \<open>\<^verbatim>\<open>endpoint.format(query=q, category=cat)\<close>.\<close>

fun format_endpoint :: "endpoint \<Rightarrow> string \<Rightarrow> string \<Rightarrow> string" where
  "format_endpoint (a, b, c) q cat = a @ q @ b @ cat @ c"

text \<open>
  The network, as what one request to a URL comes to. For a structured endpoint:
  the exception that \<^verbatim>\<open>urlopen\<close>, \<^verbatim>\<open>read\<close> or \<^verbatim>\<open>json.loads\<close> raises, or the value
  \<^verbatim>\<open>json.loads\<close> returns. For an HTML endpoint: the exception, or the events the
  library's tokenizer makes of the decoded page.
\<close>

type_synonym json_world = "string \<Rightarrow> exn + pyval"
type_synonym html_world = "string \<Rightarrow> exn + event list"

text \<open>The exception classes the two \<^verbatim>\<open>except\<close> clauses of each fetcher catch.\<close>

fun caught_json :: "exn \<Rightarrow> bool" where
  "caught_json (Exn c msg) = (c \<in> set [URLError, HTTPError, TimeoutError, JSONDecodeError])"

fun caught_html :: "exn \<Rightarrow> bool" where
  "caught_html (Exn c msg) = (c \<in> set [URLError, HTTPError, TimeoutError])"

text \<open>
  How a loop ends: it returned a value from inside, or it ran to its end, leaving
  \<^verbatim>\<open>last_error\<close>. The first component of every result below is the list of the URLs
  requested so far, oldest first.
\<close>

datatype 'a scan = Found 'a | Exhausted "exn option"

text \<open>The inner loop of \<^verbatim>\<open>fetch_results\<close>, over the category codes of one endpoint.\<close>

fun json_categories ::
  "json_world \<Rightarrow> endpoint \<Rightarrow> string \<Rightarrow> string list \<Rightarrow> exn option \<Rightarrow> string list
   \<Rightarrow> string list \<times> (exn + pyval list scan)" where
  "json_categories w ep q [] last_error log = (log, Inr (Exhausted last_error))"
| "json_categories w ep q (cat # cats) last_error log =
     (let url = format_endpoint ep q cat
      in case w url of
           Inl e \<Rightarrow>
             if caught_json e then json_categories w ep q cats (Some e) (log @ [url])
             else (log @ [url], Inl e)
         | Inr data \<Rightarrow>
             (case data of
                VList (x # xs) \<Rightarrow> (log @ [url], Inr (Found (x # xs)))
              | _ \<Rightarrow> json_categories w ep q cats last_error (log @ [url])))"

text \<open>The outer loop; \<^verbatim>\<open>CATEGORY_SETS[category_key]\<close> raises on an unknown key.\<close>

fun json_endpoints ::
  "json_world \<Rightarrow> string \<Rightarrow> string \<Rightarrow> endpoint list \<Rightarrow> exn option \<Rightarrow> string list
   \<Rightarrow> string list \<times> (exn + pyval list scan)" where
  "json_endpoints w category_key q [] last_error log = (log, Inr (Exhausted last_error))"
| "json_endpoints w category_key q (ep # eps) last_error log =
     (case CATEGORY_SETS category_key of
        None \<Rightarrow> (log, Inl (Exn KeyError category_key))
      | Some cats \<Rightarrow>
          (case json_categories w ep q cats last_error log of
             (log', Inl e) \<Rightarrow> (log', Inl e)
           | (log', Inr (Found data)) \<Rightarrow> (log', Inr (Found data))
           | (log', Inr (Exhausted last_error')) \<Rightarrow>
               json_endpoints w category_key q eps last_error' log'))"

text \<open>The loops of \<^verbatim>\<open>fetch_html_results\<close>; the \<^verbatim>\<open>try\<close> block holds the parser too.\<close>

fun html_categories ::
  "(string \<Rightarrow> string) \<Rightarrow> html_world \<Rightarrow> endpoint \<Rightarrow> string \<Rightarrow> string list \<Rightarrow> exn option
   \<Rightarrow> string list \<Rightarrow> string list \<times> (exn + pyval list scan)" where
  "html_categories decode w ep q [] last_error log = (log, Inr (Exhausted last_error))"
| "html_categories decode w ep q (cat # cats) last_error log =
     (let url = format_endpoint ep q cat;
          attempt = (case w url of
                       Inl e \<Rightarrow> Inl e
                     | Inr html \<Rightarrow> feed decode html new_parser)
      in case attempt of
           Inl e \<Rightarrow>
             if caught_html e then html_categories decode w ep q cats (Some e) (log @ [url])
             else (log @ [url], Inl e)
         | Inr p \<Rightarrow>
             if rows p \<noteq> [] then (log @ [url], Inr (Found (rows p)))
             else html_categories decode w ep q cats last_error (log @ [url]))"

fun html_endpoints ::
  "(string \<Rightarrow> string) \<Rightarrow> html_world \<Rightarrow> string \<Rightarrow> string \<Rightarrow> endpoint list \<Rightarrow> exn option
   \<Rightarrow> string list \<Rightarrow> string list \<times> (exn + pyval list scan)" where
  "html_endpoints decode w category_key q [] last_error log =
     (log, Inr (Exhausted last_error))"
| "html_endpoints decode w category_key q (ep # eps) last_error log =
     (case CATEGORY_SETS category_key of
        None \<Rightarrow> (log, Inl (Exn KeyError category_key))
      | Some cats \<Rightarrow>
          (case html_categories decode w ep q cats last_error log of
             (log', Inl e) \<Rightarrow> (log', Inl e)
           | (log', Inr (Found data)) \<Rightarrow> (log', Inr (Found data))
           | (log', Inr (Exhausted last_error')) \<Rightarrow>
               html_endpoints decode w category_key q eps last_error' log'))"

definition fetch_html_results ::
  "(string \<Rightarrow> string) \<Rightarrow> html_world \<Rightarrow> string \<Rightarrow> string \<Rightarrow> string list
   \<Rightarrow> string list \<times> (exn + pyval list)" where
  "fetch_html_results decode w query category_key log =
     (let encoded_query = quote ''/'' query
      in case html_endpoints decode w category_key encoded_query HTML_ENDPOINTS None log of
           (log', Inl e) \<Rightarrow> (log', Inl e)
         | (log', Inr (Found found)) \<Rightarrow> (log', Inr found)
         | (log', Inr (Exhausted (Some last_error))) \<Rightarrow>
             (log', Inl (Exn RuntimeError
                (''All HTML endpoints failed. Last error: '' @ exn_str last_error)))
         | (log', Inr (Exhausted None)) \<Rightarrow> (log', Inr []))"

definition fetch_results ::
  "(string \<Rightarrow> string) \<Rightarrow> json_world \<Rightarrow> html_world \<Rightarrow> string \<Rightarrow> string
   \<Rightarrow> string list \<times> (exn + pyval list)" where
  "fetch_results decode wj wh query category_key =
     (let encoded_query = quote ''/'' query
      in case json_endpoints wj category_key encoded_query API_ENDPOINTS None [] of
           (log, Inl e) \<Rightarrow> (log, Inl e)
         | (log, Inr (Found data)) \<Rightarrow> (log, Inr data)
         | (log, Inr (Exhausted last_error)) \<Rightarrow>
             (case fetch_html_results decode wh query category_key log of
                (log', Inl e) \<Rightarrow> (log', Inl e)
              | (log', Inr html_rows) \<Rightarrow>
                  if html_rows \<noteq> [] then (log', Inr html_rows)
                  else (case last_error of
                          Some e \<Rightarrow>
                            (log', Inl (Exn RuntimeError
                               (''All proxy endpoints/categories failed. Last error: ''
                                @ exn_str e)))
                        | None \<Rightarrow> (log', Inr []))))"

section \<open>Result filter and ranker: \<^verbatim>\<open>filter_and_sort\<close>\<close>

text \<open>The dictionary the loop appends, with its five fixed keys.\<close>

record result_row =
  r_name :: string
  r_info_hash :: pyval
  r_seeders :: int
  r_leechers :: int
  r_size :: int

text \<open>
  One pass of the loop body over a row: an exception, \<^verbatim>\<open>continue\<close> (\<open>None\<close>), or the
  record appended. A row that is not a dictionary has no \<^verbatim>\<open>get\<close>; a name that is
  true but not a string has no \<^verbatim>\<open>lower\<close>.
\<close>

fun filter_row :: "string \<Rightarrow> pyval \<Rightarrow> exn + result_row option" where
  "filter_row resolution (VDict row) =
     (let name = dict_get row ''name'' (VStr [])
      in if \<not> py_truthy name then Inr None
         else
           (case name of
              VStr nm \<Rightarrow>
                let lower_name = py_lower nm
                in if resolution = ''1080'' \<and> \<not> py_contains ''1080'' lower_name
                   then Inr None
                   else if resolution = ''4k'' \<and>
                           \<not> (py_contains ''2160'' lower_name \<or>
                              py_contains ''4k'' lower_name \<or>
                              py_contains ''uhd'' lower_name)
                   then Inr None
                   else
                     let info_hash = dict_get row ''info_hash'' VNone
                     in if \<not> py_truthy info_hash then Inr None
                        else
                          (case py_int (dict_get row ''seeders'' (VInt 0)) of
                             Inl e \<Rightarrow> Inl e
                           | Inr seeders \<Rightarrow>
                               (case py_int (dict_get row ''leechers'' (VInt 0)) of
                                  Inl e \<Rightarrow> Inl e
                                | Inr leechers \<Rightarrow>
                                    (case py_int (dict_get row ''size'' (VInt 0)) of
                                       Inl e \<Rightarrow> Inl e
                                     | Inr sz \<Rightarrow>
                                         Inr (Some \<lparr>r_name = nm, r_info_hash = info_hash,
                                                    r_seeders = seeders,
                                                    r_leechers = leechers,
                                                    r_size = sz\<rparr>))))
            | _ \<Rightarrow> Inl (Exn AttributeError ''object has no attribute lower'')))"
| "filter_row resolution row = Inl (Exn AttributeError ''object has no attribute get'')"

text \<open>The \<^verbatim>\<open>for\<close> loop, with the list \<^verbatim>\<open>filtered\<close> built so far.\<close>

fun collect :: "string \<Rightarrow> pyval list \<Rightarrow> result_row list \<Rightarrow> exn + result_row list" where
  "collect resolution [] filtered = Inr filtered"
| "collect resolution (row # rest) filtered =
     (case filter_row resolution row of
        Inl e \<Rightarrow> Inl e
      | Inr None \<Rightarrow> collect resolution rest filtered
      | Inr (Some r) \<Rightarrow> collect resolution rest (filtered @ [r]))"

text \<open>
  \<^verbatim>\<open>filtered.sort(key=lambda r: r["seeders"], reverse=True)\<close>: Python's sort is
  stable, also with \<^verbatim>\<open>reverse=True\<close>; \<^const>\<open>sort_key\<close> is the stable insertion sort.
\<close>

definition sort_seeders_desc :: "result_row list \<Rightarrow> result_row list" where
  "sort_seeders_desc rs = sort_key (\<lambda>r. - r_seeders r) rs"

definition filter_and_sort :: "pyval list \<Rightarrow> string \<Rightarrow> exn + result_row list" where
  "filter_and_sort rws resolution =
     (case collect resolution rws [] of
        Inl e \<Rightarrow> Inl e
      | Inr filtered \<Rightarrow> Inr (take 100 (sort_seeders_desc filtered)))"

section \<open>Notions the statements below are written in\<close>

subsection \<open>Size patterns\<close>

text \<open>A number as the pattern writes it: digits, and optionally a point and more digits.\<close>

definition is_number :: "string \<Rightarrow> bool" where
  "is_number s =
     (\<exists>ds fs. ds \<noteq> [] \<and> list_all is_ascii_digit ds \<and> list_all is_ascii_digit fs \<and>
        (s = ds \<or> (fs \<noteq> [] \<and> s = ds @ ''.'' @ fs)))"

definition listed_units :: "string list" where
  "listed_units = [''b'', ''kib'', ''kb'', ''mib'', ''mb'', ''gib'', ''gb'', ''tib'', ''tb'']"

text \<open>
  The text holds \<^verbatim>\<open>Size <number> <unit>\<close> with one of the nine listed units, in any
  letter case.
\<close>

definition has_listed_size :: "string \<Rightarrow> bool" where
  "has_listed_size str =
     (\<exists>pre num ws u post.
        str = pre @ ''Size '' @ num @ ws @ u @ post \<and> is_number num \<and>
        list_all py_isspace ws \<and> py_lower u \<in> set listed_units)"

text \<open>
  The text holds \<^verbatim>\<open>Size \<close>, a number, any white space and one or more ASCII letters,
  whatever the letters spell.
\<close>

definition has_size_pattern :: "string \<Rightarrow> bool" where
  "has_size_pattern str =
     (\<exists>pre num ws u post.
        str = pre @ ''Size '' @ num @ ws @ u @ post \<and> is_number num \<and>
        list_all py_isspace ws \<and> u \<noteq> [] \<and> list_all is_ascii_alpha u)"

subsection \<open>A synthetic result row\<close>

definition example_hash :: string where
  "example_hash = ''AAAAAAAAAAAAAAAAAAAAAAAAAAAAAAAAAAAAAAAA''"

definition example_magnet :: string where
  "example_magnet = ''magnet:?xt=urn:btih:'' @ example_hash @ ''&dn=Example.Movie.1080p''"

text \<open>
  The events of one table row: a title anchor inside the \<^verbatim>\<open>detName\<close> container, an
  anchor with the magnet link, the \<^verbatim>\<open>detDesc\<close> text, and two right-aligned cells.
\<close>

definition example_row :: "event list" where
  "example_row =
     [StartTag ''tr'' [],
      StartTag ''td'' [],
      StartTag ''div'' [(''class'', Some ''detName'')],
      StartTag ''a'' [(''href'', Some ''/torrent/1/Example.Movie.1080p''),
                      (''class'', Some ''detLink'')],
      Data ''Example.Movie.1080p'',
      EndTag ''a'',
      EndTag ''div'',
      StartTag ''a'' [(''href'', Some example_magnet)],
      EndTag ''a'',
      StartTag ''font'' [(''class'', Some ''detDesc'')],
      Data ''Uploaded 03-14 2020, Size 2 GiB, ULed by someone'',
      EndTag ''font'',
      EndTag ''td'',
      StartTag ''td'' [(''align'', Some ''right'')],
      Data ''120'',
      EndTag ''td'',
      StartTag ''td'' [(''align'', Some ''right'')],
      Data ''5'',
      EndTag ''td'',
      EndTag ''tr'']"

text \<open>The rows of a parser run, or the exception that ended it.\<close>

definition parsed_rows :: "(string \<Rightarrow> string) \<Rightarrow> event list \<Rightarrow> exn + pyval list" where
  "parsed_rows decode evs = map_sum id rows (feed decode evs new_parser)"

text \<open>
  A row as the parser emits it: the five keys, with a name and an info-hash that are
  not empty, the info-hash read off a magnet link.
\<close>

definition complete_row :: "(string \<Rightarrow> string) \<Rightarrow> pyval \<Rightarrow> bool" where
  "complete_row decode r =
     (\<exists>n h m s l z.
        r = VDict [(''name'', VStr n), (''info_hash'', VStr h), (''seeders'', VInt s),
                   (''leechers'', VInt l), (''size'', VInt z)] \<and>
        n \<noteq> [] \<and> h \<noteq> [] \<and> parse_btih_from_magnet decode m = Some h)"

subsection \<open>Filtering and ranking\<close>

definition has_substring :: "string \<Rightarrow> string \<Rightarrow> bool" where
  "has_substring sub s = (\<exists>pre post. s = pre @ sub @ post)"

text \<open>The resolution test of a selector on a name.\<close>

definition resolution_passes :: "string \<Rightarrow> string \<Rightarrow> bool" where
  "resolution_passes sel nm =
     (if sel = ''1080'' then has_substring ''1080'' (py_lower nm)
      else if sel = ''4k''
      then has_substring ''2160'' (py_lower nm) \<or> has_substring ''4k'' (py_lower nm) \<or>
           has_substring ''uhd'' (py_lower nm)
      else True)"

text \<open>
  The rows the claim keeps: a name that is not empty, the resolution test passed, an
  info-hash that is present (true in Python's sense).
\<close>

definition keeps :: "string \<Rightarrow> pyval \<Rightarrow> bool" where
  "keeps sel row =
     (case row of
        VDict d \<Rightarrow>
          (case dict_get d ''name'' (VStr []) of
             VStr nm \<Rightarrow>
               nm \<noteq> [] \<and> resolution_passes sel nm \<and>
               py_truthy (dict_get d ''info_hash'' VNone)
           | _ \<Rightarrow> False)
      | _ \<Rightarrow> False)"

definition int_field :: "(string \<times> pyval) list \<Rightarrow> string \<Rightarrow> int" where
  "int_field d k = (case py_int (dict_get d k (VInt 0)) of Inr i \<Rightarrow> i | Inl e \<Rightarrow> 0)"

text \<open>The record of a kept row.\<close>

definition to_record :: "pyval \<Rightarrow> result_row" where
  "to_record row =
     (case row of
        VDict d \<Rightarrow>
          \<lparr>r_name = (case dict_get d ''name'' (VStr []) of VStr nm \<Rightarrow> nm | _ \<Rightarrow> []),
           r_info_hash = dict_get d ''info_hash'' VNone,
           r_seeders = int_field d ''seeders'',
           r_leechers = int_field d ''leechers'',
           r_size = int_field d ''size''\<rparr>
      | _ \<Rightarrow> \<lparr>r_name = [], r_info_hash = VNone, r_seeders = 0, r_leechers = 0, r_size = 0\<rparr>)"

definition convertible :: "(string \<times> pyval) list \<Rightarrow> string \<Rightarrow> bool" where
  "convertible d k = (\<exists>i. py_int (dict_get d k (VInt 0)) = Inr i)"

text \<open>
  A row of the expected types: a dictionary whose name, when it has one, is a string,
  and whose seeders, leechers and size, when it has them, are values \<^verbatim>\<open>int()\<close> takes.
\<close>

definition typed_row :: "pyval \<Rightarrow> bool" where
  "typed_row row =
     (\<exists>d. row = VDict d \<and> (\<exists>nm. dict_get d ''name'' (VStr []) = VStr nm) \<and>
        convertible d ''seeders'' \<and> convertible d ''leechers'' \<and> convertible d ''size'')"

text \<open>A value that is not a negative number and not a string with a minus sign.\<close>

fun not_negative :: "pyval \<Rightarrow> bool" where
  "not_negative (VInt i) = (0 \<le> i)"
| "not_negative (VFloat (Finite m e)) = (0 \<le> m)"
| "not_negative (VStr s) = (CHR ''-'' \<notin> set s)"
| "not_negative v = True"

text \<open>Five rows to rank: one of the wrong resolution, one without info-hash, a tie.\<close>

definition example_rows :: "pyval list" where
  "example_rows =
     [VDict [(''name'', VStr ''Example.Movie.720p''), (''info_hash'', VStr ''h1''),
             (''seeders'', VInt 50)],
      VDict [(''name'', VStr ''Example.Movie.1080p''), (''info_hash'', VStr ''h2''),
             (''seeders'', VStr ''7''), (''leechers'', VStr ''1''), (''size'', VStr ''100'')],
      VDict [(''name'', VStr ''Other.1080P.WEB''), (''info_hash'', VStr ''h3''),
             (''seeders'', VInt 9)],
      VDict [(''name'', VStr ''No.Hash.1080p''), (''seeders'', VInt 99)],
      VDict [(''name'', VStr ''Tie.1080p''), (''info_hash'', VStr ''h5''),
             (''seeders'', VInt 7)]]"

definition negative_row :: pyval where
  "negative_row =
     VDict [(''name'', VStr ''Example''), (''info_hash'', VStr ''h''),
            (''seeders'', VInt (- 3))]"

subsection \<open>Magnet links\<close>

text \<open>
  The form C5 states: the name encoded with the space left as it is, every tracker
  encoded with nothing left as it is but the characters that are always safe.
\<close>

definition magnet_fully_encoded :: "string \<Rightarrow> string \<Rightarrow> string" where
  "magnet_fully_encoded h n =
     ''magnet:?xt=urn:btih:'' @ h @ ''&dn='' @ quote '' '' n @
     concat (map (\<lambda>tr. ''&tr='' @ quote [] tr) TRACKERS)"

subsection \<open>Requests in order\<close>

text \<open>The URLs of a fetcher, in the order of its two loops.\<close>

definition urls :: "endpoint list \<Rightarrow> string \<Rightarrow> string list \<Rightarrow> string list" where
  "urls eps q cats = concat (map (\<lambda>ep. map (format_endpoint ep q) cats) eps)"

text \<open>
  What one request comes to, for either fetcher: an exception, or the rows it found
  (none for a JSON value that is not a list, or an empty list).
\<close>

definition json_attempt :: "json_world \<Rightarrow> string \<Rightarrow> exn + pyval list" where
  "json_attempt w u =
     (case w u of
        Inl e \<Rightarrow> Inl e
      | Inr (VList xs) \<Rightarrow> Inr xs
      | Inr v \<Rightarrow> Inr [])"

definition html_attempt :: "(string \<Rightarrow> string) \<Rightarrow> html_world \<Rightarrow> string \<Rightarrow> exn + pyval list" where
  "html_attempt decode w u =
     (case w u of
        Inl e \<Rightarrow> Inl e
      | Inr html \<Rightarrow> parsed_rows decode html)"

text \<open>
  An attempt after which the loop goes on: an exception of a caught class (recorded
  as the last error), or no rows.
\<close>

definition quiet :: "(exn \<Rightarrow> bool) \<Rightarrow> exn + pyval list \<Rightarrow> bool" where
  "quiet caught r = (case r of Inl e \<Rightarrow> caught e | Inr rs \<Rightarrow> rs = [])"

text \<open>The exceptions of a run of attempts, oldest first.\<close>

definition errors_of :: "(exn + pyval list) list \<Rightarrow> exn list" where
  "errors_of rs = concat (map (\<lambda>r. case r of Inl e \<Rightarrow> [e] | Inr x \<Rightarrow> []) rs)"

text \<open>The two nested loops of a fetcher as one pass over its URLs.\<close>

fun scan_urls ::
  "(exn \<Rightarrow> bool) \<Rightarrow> (string \<Rightarrow> exn + pyval list) \<Rightarrow> string list \<Rightarrow> exn option \<Rightarrow> string list
   \<Rightarrow> string list \<times> (exn + pyval list scan)" where
  "scan_urls caught att [] last_error log = (log, Inr (Exhausted last_error))"
| "scan_urls caught att (u # us) last_error log =
     (case att u of
        Inl e \<Rightarrow>
          if caught e then scan_urls caught att us (Some e) (log @ [u])
          else (log @ [u], Inl e)
      | Inr rs \<Rightarrow>
          if rs \<noteq> [] then (log @ [u], Inr (Found rs))
          else scan_urls caught att us last_error (log @ [u]))"

text \<open>The message of the exception that reports the last recorded error.\<close>

definition all_failed :: "exn list \<Rightarrow> exn list \<Rightarrow> exn" where
  "all_failed json_errors html_errors =
     Exn RuntimeError
       (if html_errors \<noteq> []
        then ''All HTML endpoints failed. Last error: '' @ exn_str (last html_errors)
        else ''All proxy endpoints/categories failed. Last error: '' @
             exn_str (last json_errors))"

section \<open>Evaluation on concrete inputs\<close>

lemma startswith_Nil [simp]: "startswith s [] = True"
  by (simp add: startswith_def)

lemma startswith_Nil_Cons [simp]: "startswith [] (d # p) = False"
  by (simp add: startswith_def)

lemma startswith_Cons_Cons [simp]: "startswith (c # s) (d # p) = (c = d \<and> startswith s p)"
  by (auto simp: startswith_def)

lemma startswith_append: "startswith (p @ s) p"
  by (simp add: startswith_def)

lemmas str_defs =
  is_ascii_digit_def is_ascii_alpha_def py_isspace_def py_isdigit_def py_isdigit_char_def
  py_lower_def py_lower_char_def lower_table_def py_strip_def digits_val_def

lemmas float_defs = fround_def floor_log2_def ge_pow2_def round_half_even_def

lemmas size_defs = parse_size_bytes_def match_here_def scale_def

lemmas magnet_defs =
  parse_btih_from_magnet_def qs_values_def parse_qsl_def parse_field_def
  plus_to_space_def unquote_def urlparse_query_def

lemmas parser_defs =
  handle_starttag_def handle_endtag_def handle_data_def start_anchor_def emit_row_def
  attr_get_def reset_row_def new_parser_def py_int_of_str_def bad_literal_def
  int_max_str_digits_def

lemmas quote_defs = quote_def quote_char_def always_safe_def pct_byte_def hex_digit_def

section \<open>Size normalizer\<close>

text \<open>
  C7: \<^verbatim>\<open>parse_size_bytes("Size 1.5 GiB text")\<close> is the floor of 1.5 times \<open>1024 ^ 3\<close>,
  \<^verbatim>\<open>parse_size_bytes("Size 700 MB")\<close> is 700 times \<open>1024 ^ 2\<close>, and each decimal-prefix
  unit (kb, mb, gb, tb) has the scale of its binary-prefix unit (kib, mib, gib, tib),
  a power of 1024.
\<close>

theorem size_normalizer_examples:
  "parse_size_bytes ''Size 1.5 GiB text'' = Inr ((15 * 1024 ^ 3) div 10)
   \<and> parse_size_bytes ''Size 700 MB'' = Inr (700 * 1024 ^ 2)
   \<and> scale ''kb'' = 1024 \<and> scale ''kib'' = 1024
   \<and> scale ''mb'' = 1024 ^ 2 \<and> scale ''mib'' = 1024 ^ 2
   \<and> scale ''gb'' = 1024 ^ 3 \<and> scale ''gib'' = 1024 ^ 3
   \<and> scale ''tb'' = 1024 ^ 4 \<and> scale ''tib'' = 1024 ^ 4"
  by (simp add: size_defs float_defs str_defs Let_def)

text \<open>What a match of the pattern at the start of a text says about the text.\<close>

lemma startswith_decomp: "startswith s p \<Longrightarrow> s = p @ drop (length p) s"
  unfolding startswith_def by (metis append_take_drop_id)

lemma match_here_sound:
  assumes "match_here s = Some m"
  shows "\<exists>num ws u post.
           s = ''Size '' @ num @ ws @ u @ post \<and> is_number num \<and>
           list_all py_isspace ws \<and> u \<noteq> [] \<and> list_all is_ascii_alpha u"
proof -
  define r0 where "r0 = drop 5 s"
  define ds where "ds = takeWhile is_ascii_digit r0"
  define r1 where "r1 = dropWhile is_ascii_digit r0"
  define fs where "fs = (case r1 of c # r \<Rightarrow> if c = CHR ''.'' then takeWhile is_ascii_digit r else []
                          | [] \<Rightarrow> [])"
  define r2 where "r2 = (if fs = [] then r1 else dropWhile is_ascii_digit (tl r1))"
  define ws where "ws = takeWhile py_isspace r2"
  define r3 where "r3 = dropWhile py_isspace r2"
  define us where "us = takeWhile is_ascii_alpha r3"
  define post where "post = dropWhile is_ascii_alpha r3"
  have unf: "match_here s =
     (if \<not> startswith s ''Size '' then None
      else if ds = [] then None
      else if us = [] then None
      else Some \<lparr>int_digits = ds, frac_digits = fs, unit_letters = us\<rparr>)"
    unfolding match_here_def Let_def r0_def ds_def r1_def fs_def r2_def r3_def us_def
    by (rule refl)
  from assms have pre: "startswith s ''Size ''"
    unfolding unf by (simp split: if_splits)
  from assms have ds: "ds \<noteq> []"
    unfolding unf by (simp split: if_splits)
  from assms have us: "us \<noteq> []"
    unfolding unf by (simp split: if_splits)
  have "length ''Size '' = 5" by simp
  with startswith_decomp[OF pre] have s: "s = ''Size '' @ r0"
    unfolding r0_def by metis
  have r0: "r0 = ds @ r1"
    by (simp add: ds_def r1_def)
  have r2: "r2 = ws @ us @ post"
    by (simp add: ws_def r3_def us_def post_def)
  have dig1: "list_all is_ascii_digit ds"
    unfolding ds_def list_all_iff by (blast dest: set_takeWhileD)
  have sp: "list_all py_isspace ws"
    unfolding ws_def list_all_iff by (blast dest: set_takeWhileD)
  have al: "list_all is_ascii_alpha us"
    unfolding us_def list_all_iff by (blast dest: set_takeWhileD)
  show ?thesis
  proof (cases "fs = []")
    case True
    then have "s = ''Size '' @ ds @ ws @ us @ post"
      using s r0 r2 by (simp add: r2_def)
    moreover have "is_number ds"
      unfolding is_number_def using ds dig1 by (intro exI[of _ ds] exI[of _ "[]"]) simp
    ultimately show ?thesis using sp us al by blast
  next
    case False
    then obtain r where r1: "r1 = CHR ''.'' # r" and fs': "fs = takeWhile is_ascii_digit r"
      unfolding fs_def by (cases r1) (simp_all split: if_splits)
    have dig2: "list_all is_ascii_digit fs"
      unfolding fs' list_all_iff by (blast dest: set_takeWhileD)
    have "r = fs @ r2"
      using False by (simp add: r2_def r1 fs')
    then have "s = ''Size '' @ (ds @ ''.'' @ fs) @ ws @ us @ post"
      using s r0 r1 r2 by simp
    moreover have "is_number (ds @ ''.'' @ fs)"
      unfolding is_number_def using ds dig1 dig2 False
      by (intro exI[of _ ds] exI[of _ fs]) simp
    ultimately show ?thesis using sp us al by blast
  qed
qed

lemma re_search_sound: "re_search str = Some m \<Longrightarrow> has_size_pattern str"
proof (induction str)
  case Nil
  then show ?case by (simp add: match_here_def)
next
  case (Cons c cs)
  show ?case
  proof (cases "match_here (c # cs)")
    case None
    with Cons have "has_size_pattern cs" by simp
    then obtain pre num ws u post where
      "cs = pre @ ''Size '' @ num @ ws @ u @ post" "is_number num"
      "list_all py_isspace ws" "u \<noteq> []" "list_all is_ascii_alpha u"
      unfolding has_size_pattern_def by blast
    then have "c # cs = (c # pre) @ ''Size '' @ num @ ws @ u @ post" by simp
    then show ?thesis
      unfolding has_size_pattern_def
      using \<open>is_number num\<close> \<open>list_all py_isspace ws\<close> \<open>u \<noteq> []\<close> \<open>list_all is_ascii_alpha u\<close>
      by blast
  next
    case (Some m')
    from match_here_sound[OF Some] obtain num ws u post where
      "c # cs = [] @ ''Size '' @ num @ ws @ u @ post" "is_number num"
      "list_all py_isspace ws" "u \<noteq> []" "list_all is_ascii_alpha u"
      by auto
    then show ?thesis unfolding has_size_pattern_def by blast
  qed
qed

text \<open>
  C8, as the code has it: a text that nowhere holds \<^verbatim>\<open>Size \<close>, a number, optional white
  space and at least one ASCII letter (any letters, a listed unit or not) makes
  \<^verbatim>\<open>parse_size_bytes\<close> return 0, and no exception is raised.
\<close>

theorem no_size_pattern_gives_zero:
  assumes "\<not> has_size_pattern str"
  shows "parse_size_bytes str = Inr 0"
proof (cases "re_search str")
  case None
  then show ?thesis by (simp add: parse_size_bytes_def)
next
  case (Some m)
  with assms re_search_sound show ?thesis by blast
qed

theorem no_size_pattern_gives_zero_witness:
  "\<not> has_size_pattern ''size 5 mb'' \<and> parse_size_bytes ''size 5 mb'' = Inr 0"
proof -
  have h: "\<not> has_size_pattern ''size 5 mb''"
  proof
    assume "has_size_pattern ''size 5 mb''"
    then obtain pre rest where "''size 5 mb'' = pre @ ''Size '' @ rest"
      unfolding has_size_pattern_def by auto
    then have "CHR ''S'' \<in> set ''size 5 mb''"
      by (metis append_Cons in_set_conv_decomp)
    then show False by simp
  qed
  from h no_size_pattern_gives_zero[OF h] show ?thesis by simp
qed

text \<open>
  C8 as stated fails: \<^verbatim>\<open>Size 5 XYZ\<close> holds no listed unit, and the result is 5, the
  unknown letters scaling by 1.
\<close>

theorem unlisted_unit_counterexample:
  "\<not> has_listed_size ''Size 5 XYZ'' \<and> parse_size_bytes ''Size 5 XYZ'' = Inr 5"
proof -
  have "\<not> has_listed_size ''Size 5 XYZ''"
  proof
    assume "has_listed_size ''Size 5 XYZ''"
    then obtain pre num ws u post where
      t: "''Size 5 XYZ'' = pre @ ''Size '' @ num @ ws @ u @ post"
      and u: "py_lower u \<in> set listed_units"
      unfolding has_listed_size_def by blast
    from u obtain c u' where cu: "u = c # u'"
      by (cases u) (auto simp: listed_units_def py_lower_def)
    with u have lc: "py_lower_char c \<in> set ''bkmgt''"
      by (auto simp: listed_units_def py_lower_def)
    have "set u \<subseteq> set ''Size 5 XYZ''"
      by (subst t) auto
    with cu have "c \<in> set ''Size 5 XYZ''" by auto
    with lc show False
      by (auto simp: py_lower_char_def lower_table_def)
  qed
  moreover have "parse_size_bytes ''Size 5 XYZ'' = Inr 5"
    by (simp add: size_defs float_defs str_defs Let_def)
  ultimately show ?thesis by blast
qed

section \<open>HTML row parser\<close>

lemma example_size: "parse_size_bytes ''Uploaded 03-14 2020, Size 2 GiB, ULed by someone'' = Inr (2 * 1024 ^ 3)"
  by (simp add: size_defs float_defs str_defs Let_def)

lemma example_btih: "parse_btih_from_magnet decode example_magnet = Some example_hash"
  by (simp add: example_magnet_def example_hash_def magnet_defs str_defs Let_def eval_nat_numeral)

lemma example_magnet_prefix: "startswith example_magnet ''magnet:?xt=''"
  by (simp add: example_magnet_def)

lemma example_hash_nonempty: "example_hash \<noteq> []"
  by (simp add: example_hash_def)

text \<open>
  C2: fed the one table row \<^const>\<open>example_row\<close> (title anchor with the text
  \<^verbatim>\<open>Example.Movie.1080p\<close> inside the title container, an anchor whose \<^verbatim>\<open>href\<close> is a
  magnet link with \<^verbatim>\<open>xt=urn:btih:\<close> and 40 hex characters, a description text holding
  \<^verbatim>\<open>Size 2 GiB\<close>, two right-aligned cells \<^verbatim>\<open>120\<close> and \<^verbatim>\<open>5\<close>), the parser emits exactly
  one row: that name, the hash of the magnet link, 2 times \<open>1024 ^ 3\<close> bytes, 120
  seeders and 5 leechers.
\<close>

theorem example_row_parsed:
  "parsed_rows decode example_row =
     Inr [VDict [(''name'', VStr ''Example.Movie.1080p''),
                 (''info_hash'', VStr example_hash),
                 (''seeders'', VInt 120),
                 (''leechers'', VInt 5),
                 (''size'', VInt (2 * 1024 ^ 3))]]"
  by (simp add: parsed_rows_def example_row_def parser_defs example_size example_btih
        example_magnet_prefix example_hash_nonempty str_defs Let_def)

text \<open>
  What the parser keeps true of its rows: every row it has emitted has a name and an
  info-hash that are not empty, the info-hash read off a magnet link, and a closing
  \<^verbatim>\<open>tr\<close> emits nothing for a row without a magnet link or without a name. The
  closing-tag handler raises nothing; the other two handlers can.
\<close>

lemma emit_row_complete: "list_all (complete_row decode) (emit_row decode p)"
  unfolding emit_row_def complete_row_def
  by (auto split: option.splits list.splits)

lemma emit_row_needs_magnet: "cur_magnet p = None \<Longrightarrow> emit_row decode p = []"
  by (simp add: emit_row_def parse_btih_from_magnet_def)

lemma emit_row_needs_name: "cur_name p = None \<Longrightarrow> emit_row decode p = []"
  by (simp add: emit_row_def split: option.splits)

lemma handle_endtag_rows:
  "rows (handle_endtag decode tag p) =
     rows p @ (if tag = ''tr'' \<and> in_tr p then emit_row decode p else [])"
  by (simp add: handle_endtag_def reset_row_def Let_def)

lemma start_anchor_rows: "start_anchor ats p = Inr p' \<Longrightarrow> rows p' = rows p"
  by (auto simp: start_anchor_def split: option.splits if_splits)

lemma handle_starttag_rows: "handle_starttag tag ats p = Inr p' \<Longrightarrow> rows p' = rows p"
  by (auto simp: handle_starttag_def Let_def split: if_splits sum.splits dest!: start_anchor_rows)

lemma handle_data_rows: "handle_data d p = Inr p' \<Longrightarrow> rows p' = rows p"
  by (auto simp: handle_data_def Let_def split: if_splits sum.splits)

lemma handle_event_complete:
  assumes "handle_event decode ev p = Inr p'" "list_all (complete_row decode) (rows p)"
  shows "list_all (complete_row decode) (rows p')"
proof (cases ev)
  case (StartTag tag ats)
  with assms show ?thesis by (auto dest: handle_starttag_rows)
next
  case (EndTag tag)
  with assms show ?thesis by (auto simp: handle_endtag_rows emit_row_complete)
next
  case (Data d)
  with assms show ?thesis by (auto dest: handle_data_rows)
qed

lemma feed_complete:
  "feed decode evs p = Inr p' \<Longrightarrow> list_all (complete_row decode) (rows p)
   \<Longrightarrow> list_all (complete_row decode) (rows p')"
proof (induction evs arbitrary: p)
  case Nil
  then show ?case by simp
next
  case (Cons ev evs)
  then show ?case
    by (auto split: sum.splits dest: handle_event_complete)
qed

lemma parsed_rows_complete:
  "parsed_rows decode evs = Inr rs \<Longrightarrow> list_all (complete_row decode) rs"
proof -
  assume a: "parsed_rows decode evs = Inr rs"
  then obtain p where p: "feed decode evs new_parser = Inr p" and rs: "rs = rows p"
    unfolding parsed_rows_def by (cases "feed decode evs new_parser") auto
  have "list_all (complete_row decode) (rows new_parser)"
    by (simp add: new_parser_def)
  with feed_complete[OF p] rs show ?thesis by simp
qed

text \<open>
  C9, where the code departs from it: a row without a magnet link whose anchor has an
  \<^verbatim>\<open>href\<close> without a value ends the parser run with \<^verbatim>\<open>AttributeError\<close>, and a
  right-aligned cell holding a superscript digit ends it with \<^verbatim>\<open>ValueError\<close>; neither
  row is dropped silently.
\<close>

theorem incomplete_row_raises:
  "parsed_rows decode
     [StartTag ''tr'' [], StartTag ''td'' [], StartTag ''a'' [(''href'', None)],
      Data ''Example.Movie.1080p'', EndTag ''a'', EndTag ''td'', EndTag ''tr'']
   = Inl (Exn AttributeError ''NoneType object has no attribute startswith'')
   \<and> parsed_rows decode
     [StartTag ''tr'' [], StartTag ''td'' [(''align'', Some ''right'')],
      Data [CHR 0xB2], EndTag ''td'', EndTag ''tr'']
   = Inl (Exn ValueError ''invalid literal for int() with base 10'')"
  by (simp add: parsed_rows_def parser_defs str_defs Let_def)

section \<open>Result filter and ranker\<close>

lemma py_contains_iff: "py_contains sub s = has_substring sub s"
proof (induction s)
  case Nil
  then show ?case by (auto simp: has_substring_def)
next
  case (Cons c cs)
  have "has_substring sub (c # cs) \<longleftrightarrow> startswith (c # cs) sub \<or> has_substring sub cs"
  proof
    assume "has_substring sub (c # cs)"
    then obtain pre post where e: "c # cs = pre @ sub @ post"
      unfolding has_substring_def by blast
    show "startswith (c # cs) sub \<or> has_substring sub cs"
    proof (cases pre)
      case Nil
      with e show ?thesis by (simp add: startswith_def)
    next
      case (Cons a pre')
      with e have "cs = pre' @ sub @ post" by simp
      then show ?thesis unfolding has_substring_def by blast
    qed
  next
    assume "startswith (c # cs) sub \<or> has_substring sub cs"
    then show "has_substring sub (c # cs)"
    proof
      assume "startswith (c # cs) sub"
      then have "c # cs = [] @ sub @ drop (length sub) (c # cs)"
        using startswith_decomp by simp
      then show ?thesis unfolding has_substring_def by blast
    next
      assume "has_substring sub cs"
      then obtain pre post where "cs = pre @ sub @ post"
        unfolding has_substring_def by blast
      then have "c # cs = (c # pre) @ sub @ post" by simp
      then show ?thesis unfolding has_substring_def by blast
    qed
  qed
  with Cons show ?case by simp
qed

lemma filter_row_typed:
  assumes "typed_row row"
  shows "filter_row sel row = Inr (if keeps sel row then Some (to_record row) else None)"
proof -
  from assms obtain d nm s l z where row: "row = VDict d"
    and nm: "dict_get d ''name'' (VStr []) = VStr nm"
    and s: "py_int (dict_get d ''seeders'' (VInt 0)) = Inr s"
    and l: "py_int (dict_get d ''leechers'' (VInt 0)) = Inr l"
    and z: "py_int (dict_get d ''size'' (VInt 0)) = Inr z"
    unfolding typed_row_def convertible_def by blast
  show ?thesis
    unfolding row
    by (simp add: nm s l z keeps_def to_record_def int_field_def resolution_passes_def
          py_contains_iff Let_def)
qed

lemma collect_typed:
  "list_all typed_row rws \<Longrightarrow>
   collect sel rws acc = Inr (acc @ map to_record (filter (keeps sel) rws))"
proof (induction rws arbitrary: acc)
  case Nil
  then show ?case by simp
next
  case (Cons row rws)
  then have "typed_row row" and "list_all typed_row rws" by simp_all
  with Cons.IH filter_row_typed[of row sel] show ?case by simp
qed

lemma sorted_desc: "sorted_wrt (\<lambda>a b. r_seeders b \<le> r_seeders a) (sort_seeders_desc rs)"
proof -
  have "sorted (map (\<lambda>r. - r_seeders r) (sort_seeders_desc rs))"
    unfolding sort_seeders_desc_def by (rule sorted_sort_key)
  then show ?thesis
    by (simp add: sorted_map sorted_wrt_iff_nth_less) 
qed

lemma stable_desc:
  "filter (\<lambda>r. r_seeders r = k) (sort_seeders_desc rs) = filter (\<lambda>r. r_seeders r = k) rs"
proof -
  have "filter (\<lambda>r. - r_seeders r = - k) (sort_key (\<lambda>r. - r_seeders r) rs)
        = filter (\<lambda>r. - r_seeders r = - k) rs"
    by (rule sort_key_stable)
  then show ?thesis by (simp add: sort_seeders_desc_def)
qed

text \<open>
  C3: for every list of typed rows and every selector, \<^verbatim>\<open>filter_and_sort\<close> returns
  the first 100 of a list \<open>ranked\<close> that holds exactly the records of the rows with a
  name that is not empty, a present info-hash and the resolution test passed (1080:
  the lowercase name holds \<^verbatim>\<open>1080\<close>; 4k: it holds \<^verbatim>\<open>2160\<close>, \<^verbatim>\<open>4k\<close> or \<^verbatim>\<open>uhd\<close>; any
  other selector: no test), sorted by seeders from high to low, rows with equal
  seeders in their original order; so at most 100 records, however many rows pass.
\<close>

theorem filter_and_sort_ranks:
  assumes "list_all typed_row rws"
  shows "\<exists>ranked.
           filter_and_sort rws sel = Inr (take 100 ranked) \<and>
           mset ranked = mset (map to_record (filter (keeps sel) rws)) \<and>
           sorted_wrt (\<lambda>a b. r_seeders b \<le> r_seeders a) ranked \<and>
           (\<forall>k. filter (\<lambda>r. r_seeders r = k) ranked =
                filter (\<lambda>r. r_seeders r = k) (map to_record (filter (keeps sel) rws))) \<and>
           length (take 100 ranked) = min 100 (length (filter (keeps sel) rws))"
proof -
  let ?kept = "map to_record (filter (keeps sel) rws)"
  from collect_typed[OF assms, of sel "[]"]
  have "filter_and_sort rws sel = Inr (take 100 (sort_seeders_desc ?kept))"
    by (simp add: filter_and_sort_def)
  moreover have "mset (sort_seeders_desc ?kept) = mset ?kept"
    by (simp add: sort_seeders_desc_def)
  moreover have "length (take 100 (sort_seeders_desc ?kept)) = min 100 (length (filter (keeps sel) rws))"
    by (simp add: sort_seeders_desc_def min.commute)
  ultimately show ?thesis
    using sorted_desc[of ?kept] stable_desc[of _ ?kept] by blast
qed

end
